theory Spec2Isabelle
  imports Main "HOL-Library.Char_ord" "HOL-Library.List_Lexorder" "HOL-Library.AList"
begin

section \<open>zk-slot-soundness: a shallow embedding of application.py\<close>

text \<open>
  Modelling conventions.
  \<^item> A Python \<open>str\<close> is a \<open>string\<close>; each \<open>char\<close> stands for one code point, so the
    model covers the strings over the first 256 code points (Latin-1). Python orders
    strings lexicographically by code point, which is the order of
    \<open>HOL-Library.List_Lexorder\<close> over \<open>HOL-Library.Char_ord\<close>.
  \<^item> A Python \<open>int\<close> is an \<open>int\<close> (unbounded).
  \<^item> A Python \<open>dict\<close> is an association list in insertion order; \<open>d[k] = v\<close> is
    \<open>AList.update k v d\<close> (an existing key keeps its place, a new one goes to the end)
    and \<open>d.get(k, dflt)\<close> is \<open>dict_get d k dflt\<close>.
  \<^item> A raised exception is the \<open>Inl\<close> of a sum type.
\<close>

subsection \<open>Python string built-ins\<close>

text \<open>
  \<open>str.isspace\<close> for one code point below 256: U+0009..U+000D, U+001C..U+0020, U+0085
  and U+00A0.
\<close>

definition py_isspace :: "char \<Rightarrow> bool" where
  "py_isspace c =
     (let n = (of_char c :: nat)
      in (9 \<le> n \<and> n \<le> 13) \<or> (28 \<le> n \<and> n \<le> 32) \<or> n = 133 \<or> n = 160)"

text \<open>\<open>s.strip()\<close>: whitespace is removed at both ends.\<close>

definition py_strip :: "string \<Rightarrow> string" where
  "py_strip s = rev (dropWhile py_isspace (rev (dropWhile py_isspace s)))"

text \<open>
  \<open>s.lower()\<close>: below 256 the cased capitals are A..Z and U+00C0..U+00DE without U+00D7,
  each 32 below its small letter.
\<close>

definition py_lower_char :: "char \<Rightarrow> char" where
  "py_lower_char c =
     (let n = (of_char c :: nat)
      in if (65 \<le> n \<and> n \<le> 90) \<or> (192 \<le> n \<and> n \<le> 222 \<and> n \<noteq> 215)
         then char_of (n + 32) else c)"

definition py_lower :: "string \<Rightarrow> string" where
  "py_lower s = map py_lower_char s"

definition py_startswith :: "string \<Rightarrow> string \<Rightarrow> bool" where
  "py_startswith s p = (take (length p) s = p)"

subsection \<open>The built-in \<open>int(s, 16)\<close>\<close>

text \<open>
  \<open>int(s, 16)\<close> on a \<open>str\<close>, as CPython's \<open>PyLong_FromUnicodeObject\<close> and
  \<open>PyLong_FromString\<close> compute it; \<open>None\<close> stands for the \<open>ValueError\<close>.
  \<^item> \<open>to_ascii\<close>: a code point below 127 is kept, a whitespace code point above becomes
    a blank, every other one becomes \<open>?\<close> (no code point from 127 to 255 is a decimal
    digit).
  \<^item> \<open>c_isspace\<close> is C's \<open>isspace\<close> in the C locale: U+0009..U+000D and the blank.
  \<^item> \<open>digit_value\<close> is the table \<open>_PyLong_DigitValue\<close>: 37 for a character that is
    no digit in any base.
  \<^item> \<open>scan_digits\<close> is the scanning loop: it consumes digits below 16 and underscores,
    refuses two underscores in a row and an underscore at the end of the digits, and
    returns the value, the number of digits and the text it did not consume. Its first
    argument says whether the previous character was an underscore.
  \<^item> \<open>py_int16\<close>: leading whitespace, an optional sign, an optional prefix \<open>0x\<close> or
    \<open>0X\<close> with at most one underscore after it, no underscore at the start of the
    digits, at least one digit, trailing whitespace, and then the end of the text.
\<close>

definition to_ascii :: "char \<Rightarrow> char" where
  "to_ascii c =
     (if (of_char c :: nat) < 127 then c
      else if py_isspace c then CHR '' '' else CHR ''?'')"

definition c_isspace :: "char \<Rightarrow> bool" where
  "c_isspace c = (let n = (of_char c :: nat) in (9 \<le> n \<and> n \<le> 13) \<or> n = 32)"

definition digit_value :: "char \<Rightarrow> nat" where
  "digit_value c =
     (let n = (of_char c :: nat)
      in if 48 \<le> n \<and> n \<le> 57 then n - 48
         else if 97 \<le> n \<and> n \<le> 122 then n - 87
         else if 65 \<le> n \<and> n \<le> 90 then n - 55
         else 37)"

fun scan_digits :: "bool \<Rightarrow> int \<Rightarrow> nat \<Rightarrow> string \<Rightarrow> (int \<times> nat \<times> string) option" where
  "scan_digits prev_us acc n [] = (if prev_us then None else Some (acc, n, []))"
| "scan_digits prev_us acc n (c # cs) =
     (if c = CHR ''_'' then (if prev_us then None else scan_digits True acc n cs)
      else if digit_value c < 16
        then scan_digits False (16 * acc + int (digit_value c)) (Suc n) cs
      else if prev_us then None
      else Some (acc, n, c # cs))"

definition py_int16 :: "string \<Rightarrow> int option" where
  "py_int16 s =
     (let t0 = dropWhile c_isspace (map to_ascii s);
          neg = py_startswith t0 ''-'';
          t1 = (if py_startswith t0 ''+'' \<or> py_startswith t0 ''-'' then drop 1 t0 else t0);
          t2 = (if py_startswith t1 ''0x'' \<or> py_startswith t1 ''0X''
                then (if py_startswith (drop 2 t1) ''_'' then drop 3 t1 else drop 2 t1)
                else t1)
      in if py_startswith t2 ''_'' then None
         else case scan_digits False 0 0 t2 of
                None \<Rightarrow> None
              | Some (v, n, rest) \<Rightarrow>
                  if n = 0 \<or> dropWhile c_isspace rest \<noteq> [] then None
                  else Some (if neg then - v else v))"

subsection \<open>parse_slot_hex\<close>

text \<open>
  \<^verbatim>\<open>
  def parse_slot_hex(raw: str) -> int:
      s = raw.strip().lower()
      if not s.startswith("0x"):
          raise ValueError(f"Slot must be 0x-prefixed hex: {raw}")
      try:
          return int(s, 16)
      except Exception:
          raise ValueError(f"Invalid slot hex: {raw}")
  \<close>
  \<open>AttributeError\<close> is what \<open>raw.strip()\<close> raises when a manifest hands over a value that
  is not a string; \<open>LoadError\<close> stands for whatever \<open>open\<close> or \<open>json.load\<close> raises.
\<close>

datatype error = ValueError string | AttributeError | LoadError

definition parse_slot_hex :: "string \<Rightarrow> error + int" where
  "parse_slot_hex raw =
     (let s = py_lower (py_strip raw)
      in if \<not> py_startswith s ''0x''
         then Inl (ValueError (''Slot must be 0x-prefixed hex: '' @ raw))
         else case py_int16 s of
                Some v \<Rightarrow> Inr v
              | None \<Rightarrow> Inl (ValueError (''Invalid slot hex: '' @ raw)))"

subsection \<open>Dictionaries\<close>

type_synonym ('k, 'v) dict = "('k \<times> 'v) list"

definition dict_keys :: "('k, 'v) dict \<Rightarrow> 'k list" where
  "dict_keys d = map fst d"

definition dict_get :: "('k, 'v) dict \<Rightarrow> 'k \<Rightarrow> 'v \<Rightarrow> 'v" where
  "dict_get d k dflt = (case map_of d k of None \<Rightarrow> dflt | Some v \<Rightarrow> v)"

subsection \<open>parse_slots\<close>

text \<open>
  What \<open>json.load\<close> returns: \<open>None\<close>, a \<open>bool\<close>, a number (kept as its text), a
  \<open>str\<close>, a \<open>list\<close> or a \<open>dict\<close> (keys in the order of the file).
\<close>

datatype json_value =
  JNull | JBool bool | JNumber string | JString string
  | JArray "json_value list" | JObject "(string \<times> json_value) list"

text \<open>
  The \<open>argparse.Namespace\<close> that \<open>parse_args\<close> returns. \<open>--slot\<close> has
  \<open>action="append"\<close>: it is \<open>None\<close> when the flag is absent and the list of its
  values otherwise. \<open>--manifest\<close> is \<open>None\<close> when absent.
\<close>

record args =
  address :: string
  rpc_a :: string
  rpc_b :: string
  block_a :: string
  block_b :: string
  slot :: "string list option"
  manifest :: "string option"
  timeout :: int
  json :: bool

type_synonym Slot = "string \<times> int"

text \<open>
  \<^verbatim>\<open>
  def parse_slots(args) -> List[Slot]:
      slots: List[Slot] = []
      if args.slot:
          for item in args.slot:
              if ":" in item:
                  label, raw = item.split(":", 1)
              else:
                  label, raw = item, item
              slots.append((label, parse_slot_hex(raw)))
          return slots
      if args.manifest:
          with open(args.manifest, "r", encoding="utf-8") as f:
              data = json.load(f)
          if isinstance(data, list):
              for raw in data:
                  slots.append((raw, parse_slot_hex(raw)))
          elif isinstance(data, dict):
              for label, raw in data.items():
                  slots.append((label, parse_slot_hex(raw)))
          else:
              raise ValueError("Manifest must be a list of 0x-hex slots or a mapping label -> 0x-hex slot.")
          return slots
      raise ValueError("No slots provided. Use --slot (repeatable) or --manifest JSON file.")
  \<close>
  \<open>if args.slot\<close> and \<open>if args.manifest\<close> are Python truth tests: \<open>None\<close>, the empty
  list and the empty string are false. The file system is the function \<open>load\<close>: for a
  path, what \<open>open\<close> followed by \<open>json.load\<close> gives. \<open>parse_slots\<close> returns its result
  together with the list of the paths it opened.
\<close>

definition split_item :: "string \<Rightarrow> string \<times> string" where
  "split_item item =
     (if CHR '':'' \<in> set item
      then (takeWhile (\<lambda>c. c \<noteq> CHR '':'') item, drop 1 (dropWhile (\<lambda>c. c \<noteq> CHR '':'') item))
      else (item, item))"

fun slot_items_loop :: "Slot list \<Rightarrow> string list \<Rightarrow> error + Slot list" where
  "slot_items_loop slots [] = Inr slots"
| "slot_items_loop slots (item # items) =
     (case split_item item of
        (label, raw) \<Rightarrow>
          (case parse_slot_hex raw of
             Inl e \<Rightarrow> Inl e
           | Inr idx \<Rightarrow> slot_items_loop (slots @ [(label, idx)]) items))"

text \<open>
  \<open>parse_slot_hex\<close> applied to a value of the manifest: \<open>raw.strip()\<close> raises
  \<open>AttributeError\<close> when the value is not a string. In the array form the element
  itself is the label; \<open>label_of\<close> is that element as a string, and is only used once
  \<open>parse_slot_hex\<close> has returned, so the element is a string then.
\<close>

fun parse_slot_hex_value :: "json_value \<Rightarrow> error + int" where
  "parse_slot_hex_value (JString raw) = parse_slot_hex raw"
| "parse_slot_hex_value v = Inl AttributeError"

fun label_of :: "json_value \<Rightarrow> string" where
  "label_of (JString raw) = raw"
| "label_of v = []"

fun manifest_list_loop :: "Slot list \<Rightarrow> json_value list \<Rightarrow> error + Slot list" where
  "manifest_list_loop slots [] = Inr slots"
| "manifest_list_loop slots (raw # rest) =
     (case parse_slot_hex_value raw of
        Inl e \<Rightarrow> Inl e
      | Inr idx \<Rightarrow> manifest_list_loop (slots @ [(label_of raw, idx)]) rest)"

fun manifest_dict_loop :: "Slot list \<Rightarrow> (string \<times> json_value) list \<Rightarrow> error + Slot list" where
  "manifest_dict_loop slots [] = Inr slots"
| "manifest_dict_loop slots ((label, raw) # rest) =
     (case parse_slot_hex_value raw of
        Inl e \<Rightarrow> Inl e
      | Inr idx \<Rightarrow> manifest_dict_loop (slots @ [(label, idx)]) rest)"

definition load_manifest :: "json_value \<Rightarrow> error + Slot list" where
  "load_manifest data =
     (case data of
        JArray xs \<Rightarrow> manifest_list_loop [] xs
      | JObject kvs \<Rightarrow> manifest_dict_loop [] kvs
      | _ \<Rightarrow> Inl (ValueError
          ''Manifest must be a list of 0x-hex slots or a mapping label -> 0x-hex slot.''))"

definition parse_slots ::
  "args \<Rightarrow> (string \<Rightarrow> error + json_value) \<Rightarrow> (error + Slot list) \<times> string list" where
  "parse_slots a load =
     (case slot a of
        Some (item # items) \<Rightarrow> (slot_items_loop [] (item # items), [])
      | _ \<Rightarrow>
          (case manifest a of
             Some (c # cs) \<Rightarrow>
               (case load (c # cs) of
                  Inl e \<Rightarrow> (Inl e, [c # cs])
                | Inr data \<Rightarrow> (load_manifest data, [c # cs]))
           | _ \<Rightarrow> (Inl (ValueError
               ''No slots provided. Use --slot (repeatable) or --manifest JSON file.''), [])))"

subsection \<open>The outside world\<close>

text \<open>
  A \<open>Web3\<close> object is its endpoint URL and request timeout. What the program cannot
  compute itself is a parameter: the library's \<open>Web3.is_address\<close> and
  \<open>Web3.to_checksum_address\<close>, the file system, and the network. The network has a state
  \<open>'w\<close> that every call may change. \<open>eth_get_storage_at\<close> is
  \<open>w3.eth.get_storage_at(address, slot, block_identifier=block_id)\<close> followed by \<open>.hex()\<close>:
  \<open>Inr\<close> the hex text, or \<open>Inl\<close> the message \<open>str(e)\<close> of the \<open>Exception\<close> raised.
\<close>

type_synonym w3 = "string \<times> int"

record 'w env =
  is_address :: "string \<Rightarrow> bool"
  to_checksum_address :: "string \<Rightarrow> string"
  load_json :: "string \<Rightarrow> error + json_value"
  is_connected :: "w3 \<Rightarrow> 'w \<Rightarrow> bool \<times> 'w"
  eth_chain_id :: "w3 \<Rightarrow> 'w \<Rightarrow> 'w"
  eth_get_storage_at :: "w3 \<Rightarrow> string \<Rightarrow> int \<Rightarrow> string \<Rightarrow> 'w \<Rightarrow> (string + string) \<times> 'w"


subsection \<open>read_slots\<close>

text \<open>
  \<^verbatim>\<open>
  def get_storage_at(w3, address, slot, block_id):
      val = w3.eth.get_storage_at(address, slot, block_identifier=block_id)
      return val.hex()

  def read_slots(w3, address, block_id, slots):
      out = {}
      for label, slot in slots:
          try:
              out[label] = get_storage_at(w3, address, slot, block_id)
          except Exception as e:
              out[label] = f"ERROR:{e}"
      return out
  \<close>
  The parameters \<open>address\<close> and \<open>slot\<close> are written \<open>addr\<close> and \<open>idx\<close>, the
  \<open>Web3\<close> object \<open>w\<close> and the state of the network \<open>net\<close>.
\<close>

definition get_storage_at ::
  "'w env \<Rightarrow> w3 \<Rightarrow> string \<Rightarrow> int \<Rightarrow> string \<Rightarrow> 'w \<Rightarrow> (string + string) \<times> 'w" where
  "get_storage_at env w addr idx block_id net = eth_get_storage_at env w addr idx block_id net"

fun read_slots_loop ::
  "'w env \<Rightarrow> w3 \<Rightarrow> string \<Rightarrow> string \<Rightarrow> (string, string) dict \<Rightarrow> Slot list \<Rightarrow> 'w
     \<Rightarrow> (string, string) dict \<times> 'w" where
  "read_slots_loop env w addr block_id out [] net = (out, net)"
| "read_slots_loop env w addr block_id out ((label, idx) # rest) net =
     (case get_storage_at env w addr idx block_id net of
        (Inr v, net') \<Rightarrow>
          read_slots_loop env w addr block_id (AList.update label v out) rest net'
      | (Inl e, net') \<Rightarrow>
          read_slots_loop env w addr block_id (AList.update label (''ERROR:'' @ e) out) rest net')"

definition read_slots ::
  "'w env \<Rightarrow> w3 \<Rightarrow> string \<Rightarrow> string \<Rightarrow> Slot list \<Rightarrow> 'w \<Rightarrow> (string, string) dict \<times> 'w" where
  "read_slots env w addr block_id slots net = read_slots_loop env w addr block_id [] slots net"

subsection \<open>compare\<close>

text \<open>
  \<^verbatim>\<open>
  def compare(a, b):
      diffs = []
      ok = True
      keys = sorted(set(a.keys()) | set(b.keys()))
      for k in keys:
          va, vb = a.get(k, "MISSING"), b.get(k, "MISSING")
          if va != vb:
              diffs.append((k, va, vb))
              ok = False
      return diffs, ok
  \<close>
  The loop is \<open>compare_loop\<close>, with the two mutable locals as accumulators.
\<close>

fun compare_loop ::
  "(string, string) dict \<Rightarrow> (string, string) dict \<Rightarrow> (string \<times> string \<times> string) list \<Rightarrow> bool
     \<Rightarrow> string list \<Rightarrow> (string \<times> string \<times> string) list \<times> bool" where
  "compare_loop a b diffs ok [] = (diffs, ok)"
| "compare_loop a b diffs ok (k # ks) =
     (let va = dict_get a k ''MISSING''; vb = dict_get b k ''MISSING''
      in if va \<noteq> vb then compare_loop a b (diffs @ [(k, va, vb)]) False ks
         else compare_loop a b diffs ok ks)"

definition compare ::
  "(string, string) dict \<Rightarrow> (string, string) dict \<Rightarrow> (string \<times> string \<times> string) list \<times> bool" where
  "compare a b =
     compare_loop a b [] True (sorted_list_of_set (set (dict_keys a) \<union> set (dict_keys b)))"

subsection \<open>main\<close>


fun count_mismatches ::
  "(string, string) dict \<Rightarrow> (string, string) dict \<Rightarrow> nat \<Rightarrow> Slot list \<Rightarrow> nat" where
  "count_mismatches a_vals b_vals mismatches [] = mismatches"
| "count_mismatches a_vals b_vals mismatches ((lbl, idx) # rest) =
     (let va = dict_get a_vals lbl ''MISSING''; vb = dict_get b_vals lbl ''MISSING''
      in if va \<noteq> vb then count_mismatches a_vals b_vals (mismatches + 1) rest
         else count_mismatches a_vals b_vals mismatches rest)"


subsection \<open>Notions used in the statements\<close>

text \<open>
  The words of the specification about hexadecimal text. \<open>valid_hex\<close> is "valid
  hexadecimal" for a payload already in lower case: at least one digit, digits only.
  \<open>hex_value\<close> is its base-16 value. \<open>underscored_hex\<close> is the wider form that
  \<open>int(s, 16)\<close> takes: one underscore may follow the prefix, and single underscores may
  stand between digits. \<open>strip_us\<close> removes the underscores.
\<close>

definition is_hex_digit :: "char \<Rightarrow> bool" where
  "is_hex_digit c = (c \<in> set ''0123456789abcdef'')"











text \<open>
  What \<open>read_slots\<close> stores for the outcome of one storage read: the value, or the
  error marker.
\<close>

definition recorded :: "string + string \<Rightarrow> string" where
  "recorded r = (case r of Inr v \<Rightarrow> v | Inl e \<Rightarrow> ''ERROR:'' @ e)"






subsection \<open>Example inputs\<close>

text \<open>
  Arguments with no \<open>--slot\<close> and no \<open>--manifest\<close>, and a network whose state counts
  the storage reads made: the read of slot 1 raises \<open>timeout\<close>, slot 2 holds \<open>0x0a\<close> at
  the endpoint \<open>http://a.example\<close> and \<open>0x0b\<close> elsewhere, every other slot holds \<open>0x00\<close>.
\<close>

definition base_args :: args where
  "base_args =
     \<lparr>address = ''0x00000000219ab540356cBB839Cbe05303d7705Fa'', rpc_a = ''http://a.example'',
      rpc_b = ''https://b.example'', block_a = ''latest'', block_b = ''latest'',
      slot = None, manifest = None, timeout = 30, json = False\<rparr>"

definition example_env :: "nat env" where
  "example_env =
     \<lparr>is_address = (\<lambda>a. length a = 42 \<and> py_startswith a ''0x''),
      to_checksum_address = (\<lambda>a. a),
      load_json = (\<lambda>p. Inl LoadError),
      is_connected = (\<lambda>w net. (True, net)),
      eth_chain_id = (\<lambda>w net. net),
      eth_get_storage_at = (\<lambda>w addr idx blk net.
        (if idx = 1 then Inl ''timeout''
         else if idx = 2 then Inr (if fst w = ''http://a.example'' then ''0x0a'' else ''0x0b'')
         else Inr ''0x00'', net + 1))\<rparr>"

section \<open>Properties\<close>

subsection \<open>compare\<close>

lemma compare_loop_eq:
  "compare_loop a b diffs ok ks =
     (diffs @ map (\<lambda>k. (k, dict_get a k ''MISSING'', dict_get b k ''MISSING''))
               (filter (\<lambda>k. dict_get a k ''MISSING'' \<noteq> dict_get b k ''MISSING'') ks),
      ok \<and> filter (\<lambda>k. dict_get a k ''MISSING'' \<noteq> dict_get b k ''MISSING'') ks = [])"
  by (induction ks arbitrary: diffs ok) (simp_all add: Let_def)

text \<open>
  C1. For all dictionaries \<open>a\<close> and \<open>b\<close>, the mismatch list of \<open>compare a b\<close> is the sorted
  union of the two key sets, restricted to the keys at which the two values (with
  \<open>"MISSING"\<close> for an absent key) differ, each key \<open>k\<close> giving the triple
  \<open>(k, a-value, b-value)\<close>; its keys are in strictly ascending order; the boolean is true
  iff the mismatch list is empty; and \<open>compare({"x": "0x1"}, {})\<close> is
  \<open>([("x", "0x1", "MISSING")], False)\<close>.
\<close>

theorem compare_mismatches:
  "fst (compare a b) =
     map (\<lambda>k. (k, dict_get a k ''MISSING'', dict_get b k ''MISSING''))
       (filter (\<lambda>k. dict_get a k ''MISSING'' \<noteq> dict_get b k ''MISSING'')
          (sorted_list_of_set (set (dict_keys a) \<union> set (dict_keys b))))
   \<and> set (map fst (fst (compare a b))) =
       {k \<in> set (dict_keys a) \<union> set (dict_keys b).
          dict_get a k ''MISSING'' \<noteq> dict_get b k ''MISSING''}
   \<and> sorted (map fst (fst (compare a b))) \<and> distinct (map fst (fst (compare a b)))
   \<and> snd (compare a b) = (fst (compare a b) = [])
   \<and> compare [(''x'', ''0x1'')] [] = ([(''x'', ''0x1'', ''MISSING'')], False)"
proof -
  let ?P = "\<lambda>k. dict_get a k ''MISSING'' \<noteq> dict_get b k ''MISSING''"
  let ?ks = "sorted_list_of_set (set (dict_keys a) \<union> set (dict_keys b))"
  have c: "compare a b =
      (map (\<lambda>k. (k, dict_get a k ''MISSING'', dict_get b k ''MISSING'')) (filter ?P ?ks),
       filter ?P ?ks = [])"
    by (simp add: compare_def compare_loop_eq)
  have keys: "map fst (fst (compare a b)) = filter ?P ?ks"
    by (simp add: c comp_def)
  have s: "sorted (filter ?P ?ks)"
    by (simp add: sorted_wrt_filter)
  have d: "distinct (filter ?P ?ks)"
    by simp
  have st: "set (filter ?P ?ks) = {k \<in> set (dict_keys a) \<union> set (dict_keys b). ?P k}"
    by auto
  have ex: "compare [(''x'', ''0x1'')] [] = ([(''x'', ''0x1'', ''MISSING'')], False)"
    by (simp add: compare_def dict_keys_def dict_get_def)
  show ?thesis
    using c keys s d st ex by simp
qed

subsection \<open>parse_slot_hex and \<open>int(s, 16)\<close>\<close>

lemma of_char_lower:
  "(of_char (py_lower_char c) :: nat) =
     (let n = (of_char c :: nat)
      in if (65 \<le> n \<and> n \<le> 90) \<or> (192 \<le> n \<and> n \<le> 222 \<and> n \<noteq> 215) then n + 32 else n)"
proof -
  have "(of_char c :: nat) < 256" by simp
  then show ?thesis
    unfolding py_lower_char_def Let_def by (simp only: of_char_of if_distrib[of of_char] split: if_splits) auto
qed


lemma lower_not_upper:
  "\<not> (65 \<le> (of_char (py_lower_char c) :: nat) \<and> (of_char (py_lower_char c) :: nat) \<le> 90)"
  unfolding of_char_lower Let_def by presburger



lemma is_hex_digit_cases:
  "is_hex_digit c \<Longrightarrow>
     c = CHR ''0'' \<or> c = CHR ''1'' \<or> c = CHR ''2'' \<or> c = CHR ''3'' \<or> c = CHR ''4'' \<or> c = CHR ''5'' \<or> c = CHR ''6'' \<or> c = CHR ''7''
     \<or> c = CHR ''8'' \<or> c = CHR ''9'' \<or> c = CHR ''a'' \<or> c = CHR ''b'' \<or> c = CHR ''c'' \<or> c = CHR ''d'' \<or> c = CHR ''e'' \<or> c = CHR ''f''"
  by (simp add: is_hex_digit_def)


lemma char_of_hex_digits:
  "char_of (48::nat) = CHR ''0''"
  "char_of (49::nat) = CHR ''1''"
  "char_of (50::nat) = CHR ''2''"
  "char_of (51::nat) = CHR ''3''"
  "char_of (52::nat) = CHR ''4''"
  "char_of (53::nat) = CHR ''5''"
  "char_of (54::nat) = CHR ''6''"
  "char_of (55::nat) = CHR ''7''"
  "char_of (56::nat) = CHR ''8''"
  "char_of (57::nat) = CHR ''9''"
  "char_of (97::nat) = CHR ''a''"
  "char_of (98::nat) = CHR ''b''"
  "char_of (99::nat) = CHR ''c''"
  "char_of (100::nat) = CHR ''d''"
  "char_of (101::nat) = CHR ''e''"
  "char_of (102::nat) = CHR ''f''"
  by code_simp+

lemma is_hex_digit_iff:
  "is_hex_digit c \<longleftrightarrow>
     (48 \<le> (of_char c :: nat) \<and> (of_char c :: nat) \<le> 57) \<or> (97 \<le> (of_char c :: nat) \<and> (of_char c :: nat) \<le> 102)"
proof
  assume "is_hex_digit c"
  from is_hex_digit_cases[OF this]
  show "(48 \<le> (of_char c :: nat) \<and> (of_char c :: nat) \<le> 57) \<or> (97 \<le> (of_char c :: nat) \<and> (of_char c :: nat) \<le> 102)"
    by (elim disjE) simp_all
next
  assume "(48 \<le> (of_char c :: nat) \<and> (of_char c :: nat) \<le> 57) \<or> (97 \<le> (of_char c :: nat) \<and> (of_char c :: nat) \<le> 102)"
  then have "(of_char c :: nat) \<in> {48, 49, 50, 51, 52, 53, 54, 55, 56, 57, 97, 98, 99, 100, 101, 102}"
    by (simp only: insert_iff empty_iff) presburger
  then have "char_of (of_char c :: nat) \<in> char_of ` {48 :: nat, 49, 50, 51, 52, 53, 54, 55, 56, 57, 97, 98, 99, 100, 101, 102}"
    by (rule imageI)
  then show "is_hex_digit c"
    by (simp add: is_hex_digit_def char_of_hex_digits)
qed

lemma digit_value_lower:
  "digit_value (py_lower_char c) < 16 \<Longrightarrow> is_hex_digit (py_lower_char c)"
  using lower_not_upper[of c] unfolding is_hex_digit_iff digit_value_def Let_def
  by (simp split: if_splits)










lemma us_not_digit: "\<not> digit_value CHR ''_'' < 16"
  by (simp add: digit_value_def)




























subsection \<open>Slot indices\<close>







lemma manifest_list_loop_Inr:
  "manifest_list_loop acc xs = Inr slots \<longleftrightarrow>
     (\<exists>new. slots = acc @ new
        \<and> list_all2 (\<lambda>x (l, i). x = JString l \<and> parse_slot_hex l = Inr i) xs new)"
proof (induction xs arbitrary: acc)
  case Nil
  then show ?case by auto
next
  case (Cons x xs)
  show ?case
  proof (cases "parse_slot_hex_value x")
    case (Inl e)
    then show ?thesis
      by (cases x) (auto simp: list_all2_Cons1)
  next
    case (Inr idx)
    then obtain label where x: "x = JString label" and p: "parse_slot_hex label = Inr idx"
      by (cases x) auto
    with Cons.IH[of "acc @ [(label, idx)]"] show ?thesis
      by (auto simp: list_all2_Cons1)
  qed
qed

lemma manifest_dict_loop_Inr:
  "manifest_dict_loop acc kvs = Inr slots \<longleftrightarrow>
     (\<exists>new. slots = acc @ new
        \<and> list_all2 (\<lambda>(k, v) (l, i). l = k \<and> parse_slot_hex_value v = Inr i) kvs new)"
proof (induction kvs arbitrary: acc)
  case Nil
  then show ?case by auto
next
  case (Cons kv kvs)
  obtain k v where kv: "kv = (k, v)"
    by (cases kv)
  show ?case
  proof (cases "parse_slot_hex_value v")
    case (Inl e)
    with kv show ?thesis
      by (auto simp: list_all2_Cons1)
  next
    case (Inr idx)
    with kv Cons.IH[of "acc @ [(k, idx)]"] show ?thesis
      by (auto simp: list_all2_Cons1)
  qed
qed








subsection \<open>parse_slots\<close>

lemma parse_slots_manifest:
  assumes "slot a = None \<or> slot a = Some []" and "manifest a = Some path" and "path \<noteq> []"
  shows "parse_slots a load =
           (case load path of Inl e \<Rightarrow> Inl e | Inr data \<Rightarrow> load_manifest data, [path])"
  using assms by (cases path) (auto simp: parse_slots_def split: sum.splits)

text \<open>
  C5. When no \<open>--slot\<close> flag is given and the manifest file holds a JSON array of
  strings, \<open>parse_slots\<close> returns \<open>slots\<close> exactly when \<open>slots\<close> has one entry per
  element, in order, whose label is the raw string and whose index is what
  \<open>parse_slot_hex\<close> returns for it. When the file holds a JSON object, \<open>parse_slots\<close>
  returns \<open>slots\<close> exactly when \<open>slots\<close> has one entry per key, in order, whose label is
  the key and whose index is the parsed value. (If some value does not parse,
  \<open>parse_slots\<close> raises and returns no slot.)
\<close>

theorem manifest_slot_specs:
  assumes "slot a = None \<or> slot a = Some []" and "manifest a = Some path" and "path \<noteq> []"
  shows "(load path = Inr (JArray (map JString raws)) \<longrightarrow>
            (fst (parse_slots a load) = Inr slots \<longleftrightarrow>
               list_all2 (\<lambda>raw (label, i). label = raw \<and> parse_slot_hex raw = Inr i) raws slots))
       \<and> (load path = Inr (JObject kvs) \<longrightarrow>
            (fst (parse_slots a load) = Inr slots \<longleftrightarrow>
               list_all2 (\<lambda>(key, v) (label, i). label = key \<and> parse_slot_hex_value v = Inr i)
                 kvs slots))"
proof -
  have arr: "list_all2 (\<lambda>x (l, i). x = JString l \<and> parse_slot_hex l = Inr i) (map JString raws) slots
      \<longleftrightarrow> list_all2 (\<lambda>raw (label, i). label = raw \<and> parse_slot_hex raw = Inr i) raws slots"
    by (auto simp: list_all2_map1 elim!: list_all2_mono)
  show ?thesis
    using arr
    by (simp add: parse_slots_manifest[OF assms] load_manifest_def
        manifest_list_loop_Inr manifest_dict_loop_Inr)
qed

theorem manifest_slot_specs_witness:
  "(fst (parse_slots (base_args\<lparr>manifest := Some ''slots.json''\<rparr>)
          (\<lambda>p. Inr (JArray (map JString [''0x0'', ''0x1F'']))))
      = Inr [(''0x0'', 0), (''0x1F'', 31)])
   \<and> (fst (parse_slots (base_args\<lparr>manifest := Some ''slots.json''\<rparr>)
          (\<lambda>p. Inr (JObject [(''owner'', JString ''0x0''), (''supply'', JString ''0x02'')])))
      = Inr [(''owner'', 0), (''supply'', 2)])"
proof -
  let ?a = "base_args\<lparr>manifest := Some ''slots.json''\<rparr>"
  have h: "slot ?a = None \<or> slot ?a = Some []" "manifest ?a = Some ''slots.json''" "''slots.json'' \<noteq> []"
    by (simp_all add: base_args_def)
  have p: "parse_slot_hex ''0x0'' = Inr 0" "parse_slot_hex ''0x1F'' = Inr 31"
    "parse_slot_hex ''0x02'' = Inr 2"
    by code_simp+
  from manifest_slot_specs[OF h, where load = "\<lambda>p. Inr (JArray (map JString [''0x0'', ''0x1F'']))"
      and raws = "[''0x0'', ''0x1F'']" and slots = "[(''0x0'', 0), (''0x1F'', 31)]"]
    manifest_slot_specs[OF h,
      where load = "\<lambda>p. Inr (JObject [(''owner'', JString ''0x0''), (''supply'', JString ''0x02'')])"
      and kvs = "[(''owner'', JString ''0x0''), (''supply'', JString ''0x02'')]"
      and slots = "[(''owner'', 0), (''supply'', 2)]"]
  show ?thesis
    by (simp add: p)
qed

lemma parse_slots_flags:
  "slot a = Some (item # items) \<Longrightarrow> parse_slots a load = (slot_items_loop [] (item # items), [])"
  by (simp add: parse_slots_def)





subsection \<open>read_slots\<close>

lemma read_slots_loop_step:
  "read_slots_loop env w addr b out ((label, idx) # rest) net =
     read_slots_loop env w addr b
       (AList.update label (recorded (fst (get_storage_at env w addr idx b net))) out) rest
       (snd (get_storage_at env w addr idx b net))"
  by (cases "get_storage_at env w addr idx b net")
     (auto simp: recorded_def split: sum.splits)

lemma read_slots_loop_append:
  "read_slots_loop env w addr b out (xs @ ys) net =
     read_slots_loop env w addr b (fst (read_slots_loop env w addr b out xs net)) ys
       (snd (read_slots_loop env w addr b out xs net))"
proof (induction xs arbitrary: out net)
  case Nil
  then show ?case by simp
next
  case (Cons x xs)
  obtain label idx where x: "x = (label, idx)"
    by (cases x)
  show ?case
    unfolding x append_Cons read_slots_loop_step by (rule Cons.IH)
qed

lemma read_slots_loop_net:
  "snd (read_slots_loop env w addr b out slots net) = snd (read_slots_loop env w addr b out' slots net)"
proof (induction slots arbitrary: out out' net)
  case Nil
  then show ?case by simp
next
  case (Cons x xs)
  obtain label idx where x: "x = (label, idx)"
    by (cases x)
  show ?case
    unfolding x read_slots_loop_step by (rule Cons.IH)
qed

lemma read_slots_loop_keys:
  "fst ` set (fst (read_slots_loop env w addr b out slots net)) = fst ` set out \<union> fst ` set slots"
proof (induction slots arbitrary: out net)
  case Nil
  then show ?case by simp
next
  case (Cons x xs)
  obtain label idx where x: "x = (label, idx)"
    by (cases x)
  show ?case
    unfolding x read_slots_loop_step Cons.IH by (auto simp: dom_update)
qed

lemma read_slots_loop_other:
  "label \<notin> fst ` set slots \<Longrightarrow>
   map_of (fst (read_slots_loop env w addr b out slots net)) label = map_of out label"
proof (induction slots arbitrary: out net)
  case Nil
  then show ?case by simp
next
  case (Cons x xs)
  obtain l idx where x: "x = (l, idx)"
    by (cases x)
  with Cons.prems have "label \<noteq> l" "label \<notin> fst ` set xs"
    by auto
  then show ?case
    unfolding x read_slots_loop_step by (simp add: Cons.IH update_conv')
qed

lemma read_slots_loop_distinct:
  "distinct (map fst out) \<Longrightarrow> distinct (map fst (fst (read_slots_loop env w addr b out slots net)))"
proof (induction slots arbitrary: out net)
  case Nil
  then show ?case by simp
next
  case (Cons x xs)
  obtain l idx where x: "x = (l, idx)"
    by (cases x)
  show ?case
    unfolding x read_slots_loop_step using Cons.prems by (intro Cons.IH) (simp add: distinct_update)
qed

lemma read_slots_loop_own:
  "label \<in> fst ` set slots \<Longrightarrow>
   map_of (fst (read_slots_loop env w addr b out slots net)) label
     = map_of (fst (read_slots_loop env w addr b [] slots net)) label"
proof (induction slots arbitrary: out net)
  case Nil
  then show ?case by simp
next
  case (Cons x xs)
  obtain l idx where x: "x = (l, idx)"
    by (cases x)
  let ?v = "recorded (fst (get_storage_at env w addr idx b net))"
  let ?n = "snd (get_storage_at env w addr idx b net)"
  show ?case
  proof (cases "label \<in> fst ` set xs")
    case True
    from Cons.IH[OF True, of "AList.update l ?v out" ?n] Cons.IH[OF True, of "AList.update l ?v []" ?n]
    show ?thesis
      unfolding x read_slots_loop_step by simp
  next
    case False
    with Cons.prems x have "label = l"
      by auto
    with False show ?thesis
      unfolding x read_slots_loop_step by (simp add: read_slots_loop_other update_conv')
  qed
qed

lemma read_slots_last:
  assumes "label \<notin> fst ` set post"
  shows "map_of (fst (read_slots env w addr b (pre @ (label, idx) # post) net)) label =
     Some (recorded (fst (get_storage_at env w addr idx b (snd (read_slots env w addr b pre net)))))"
  unfolding read_slots_def read_slots_loop_append read_slots_loop_step
  using assms by (simp add: read_slots_loop_other update_conv')

lemma read_slots_rest_net:
  "snd (read_slots env w addr b (pre @ (label, idx) # post) net) =
     snd (read_slots env w addr b post
            (snd (get_storage_at env w addr idx b (snd (read_slots env w addr b pre net)))))"
  unfolding read_slots_def read_slots_loop_append read_slots_loop_step
  by (rule read_slots_loop_net)

lemma read_slots_rest_values:
  assumes "l \<in> fst ` set post"
  shows "map_of (fst (read_slots env w addr b (pre @ (label, idx) # post) net)) l =
     map_of (fst (read_slots env w addr b post
            (snd (get_storage_at env w addr idx b (snd (read_slots env w addr b pre net)))))) l"
  unfolding read_slots_def read_slots_loop_append read_slots_loop_step
  by (rule read_slots_loop_own[OF assms])

lemma read_slots_keys:
  "set (dict_keys (fst (read_slots env w addr b slots net))) = fst ` set slots"
  by (simp add: dict_keys_def read_slots_def read_slots_loop_keys)

text \<open>
  C7. Let the slot list be \<open>pre @ (label, idx) # post\<close> and let the storage read of
  \<open>(label, idx)\<close>, made in the state the reads of \<open>pre\<close> leave, raise an exception with
  message \<open>e\<close>. Then \<open>read_slots\<close> still returns a dictionary; unless \<open>label\<close> occurs
  again in \<open>post\<close>, its value for \<open>label\<close> is \<open>"ERROR:" + e\<close>; the slots of \<open>post\<close> are all
  read, from the state the failed read left; and every label of \<open>post\<close> has the value
  that reading \<open>post\<close> gives.
\<close>

theorem read_slots_failure_recorded:
  assumes "get_storage_at env w addr idx b (snd (read_slots env w addr b pre net)) = (Inl e, net')"
  shows "(label \<notin> fst ` set post \<longrightarrow>
            dict_get (fst (read_slots env w addr b (pre @ (label, idx) # post) net)) label dflt
              = ''ERROR:'' @ e)
       \<and> snd (read_slots env w addr b (pre @ (label, idx) # post) net)
           = snd (read_slots env w addr b post net')
       \<and> (\<forall>l \<in> fst ` set post.
            dict_get (fst (read_slots env w addr b (pre @ (label, idx) # post) net)) l dflt
              = dict_get (fst (read_slots env w addr b post net')) l dflt)"
proof (intro conjI impI ballI)
  assume "label \<notin> fst ` set post"
  from read_slots_last[OF this, of env w addr b pre idx net] assms
  show "dict_get (fst (read_slots env w addr b (pre @ (label, idx) # post) net)) label dflt
          = ''ERROR:'' @ e"
    by (simp add: dict_get_def recorded_def)
next
  show "snd (read_slots env w addr b (pre @ (label, idx) # post) net)
           = snd (read_slots env w addr b post net')"
    using read_slots_rest_net[of env w addr b pre label idx post net] assms by simp
next
  fix l assume "l \<in> fst ` set post"
  from read_slots_rest_values[OF this, of env w addr b pre label idx net] assms
  show "dict_get (fst (read_slots env w addr b (pre @ (label, idx) # post) net)) l dflt
              = dict_get (fst (read_slots env w addr b post net')) l dflt"
    by (simp add: dict_get_def)
qed

theorem read_slots_failure_recorded_witness:
  "get_storage_at example_env (''http://a.example'', 30) ''0xabc'' 1 ''latest''
      (snd (read_slots example_env (''http://a.example'', 30) ''0xabc'' ''latest'' [(''a'', 0)] 0))
     = (Inl ''timeout'', 2)
   \<and> dict_get (fst (read_slots example_env (''http://a.example'', 30) ''0xabc'' ''latest''
         [(''a'', 0), (''b'', 1), (''c'', 2)] 0)) ''b'' ''MISSING'' = ''ERROR:timeout''
   \<and> snd (read_slots example_env (''http://a.example'', 30) ''0xabc'' ''latest''
         [(''a'', 0), (''b'', 1), (''c'', 2)] 0) = 3
   \<and> dict_get (fst (read_slots example_env (''http://a.example'', 30) ''0xabc'' ''latest''
         [(''a'', 0), (''b'', 1), (''c'', 2)] 0)) ''c'' ''MISSING'' = ''0x0a''"
proof -
  let ?w = "(''http://a.example'', 30 :: int)"
  have h: "get_storage_at example_env ?w ''0xabc'' 1 ''latest''
      (snd (read_slots example_env ?w ''0xabc'' ''latest'' [(''a'', 0)] 0)) = (Inl ''timeout'', 2)"
    by (simp add: get_storage_at_def read_slots_def example_env_def)
  have p: "read_slots example_env ?w ''0xabc'' ''latest'' [(''c'', 2)] 2 = ([(''c'', ''0x0a'')], 3)"
    by (simp add: get_storage_at_def read_slots_def example_env_def)
  from read_slots_failure_recorded[OF h, of "''b''" "[(''c'', 2)]" "''MISSING''"] h
  show ?thesis
    by (simp add: p dict_get_def)
qed

text \<open>
  C8. When \<open>label\<close> does not occur after position \<open>length pre\<close> of the slot list, the
  dictionary \<open>read_slots\<close> returns holds for \<open>label\<close> what the read at that position gave
  (the value, or the error marker), whether or not \<open>label\<close> occurs in \<open>pre\<close>. The
  dictionary has every label once, and nothing rejects a repeated label:
  \<open>--slot a:0x0 --slot a:0x2\<close> parses to two slots labelled \<open>a\<close>.
\<close>

theorem read_slots_last_wins:
  assumes "label \<notin> fst ` set post"
  shows "dict_get (fst (read_slots env w addr b (pre @ (label, idx) # post) net)) label dflt
           = recorded (fst (get_storage_at env w addr idx b (snd (read_slots env w addr b pre net))))
       \<and> distinct (dict_keys (fst (read_slots env w addr b (pre @ (label, idx) # post) net)))
       \<and> fst (parse_slots (base_args\<lparr>slot := Some [''a:0x0'', ''a:0x2'']\<rparr>) load)
           = Inr [(''a'', 0), (''a'', 2)]"
proof -
  have "fst (parse_slots (base_args\<lparr>slot := Some [''a:0x0'', ''a:0x2'']\<rparr>) load)
           = Inr [(''a'', 0), (''a'', 2)]"
    unfolding parse_slots_flags[of "base_args\<lparr>slot := Some [''a:0x0'', ''a:0x2'']\<rparr>" "''a:0x0''"
        "[''a:0x2'']" load, simplified base_args_def, simplified]
    by code_simp
  moreover have "distinct (dict_keys (fst (read_slots env w addr b (pre @ (label, idx) # post) net)))"
    unfolding dict_keys_def read_slots_def by (rule read_slots_loop_distinct) simp
  ultimately show ?thesis
    using read_slots_last[OF assms, of env w addr b pre idx net]
    by (simp add: dict_get_def)
qed

theorem read_slots_last_wins_witness:
  "''a'' \<notin> fst ` set ([] :: Slot list)
   \<and> read_slots example_env (''http://a.example'', 30) ''0xabc'' ''latest'' [(''a'', 0), (''a'', 2)] 0
       = ([(''a'', ''0x0a'')], 2)
   \<and> dict_get (fst (read_slots example_env (''http://a.example'', 30) ''0xabc'' ''latest''
         [(''a'', 0), (''a'', 2)] 0)) ''a'' ''MISSING''
       = recorded (fst (get_storage_at example_env (''http://a.example'', 30) ''0xabc'' 2 ''latest''
           (snd (read_slots example_env (''http://a.example'', 30) ''0xabc'' ''latest'' [(''a'', 0)] 0))))"
proof -
  have h: "''a'' \<notin> fst ` set ([] :: Slot list)"
    by simp
  have p: "read_slots example_env (''http://a.example'', 30) ''0xabc'' ''latest'' [(''a'', 0), (''a'', 2)] 0
       = ([(''a'', ''0x0a'')], 2)"
    by (simp add: get_storage_at_def read_slots_def example_env_def)
  from read_slots_last_wins[OF h, of example_env "(''http://a.example'', 30)" "''0xabc''" "''latest''"
      "[(''a'', 0)]" 2 0 "''MISSING''"] p
  show ?thesis
    by simp
qed

text \<open>
  C9. The keys of the dictionary \<open>read_slots\<close> returns are exactly the labels of the slot
  list. So two calls on the same slot list, whatever the endpoint, address, block and
  state of the network, give dictionaries with the same keys, and for every slot of the
  list the lookup \<open>get(lbl, "MISSING")\<close> finds the key: its result is the same with any
  other default.
\<close>

theorem read_slots_key_set:
  "set (dict_keys (fst (read_slots env w addr b slots net))) = fst ` set slots
   \<and> set (dict_keys (fst (read_slots env w addr b slots net)))
       = set (dict_keys (fst (read_slots env' w' addr' b' slots net')))
   \<and> (\<forall>(lbl, idx) \<in> set slots.
         lbl \<in> set (dict_keys (fst (read_slots env w addr b slots net)))
         \<and> dict_get (fst (read_slots env w addr b slots net)) lbl ''MISSING''
             = dict_get (fst (read_slots env w addr b slots net)) lbl dflt)"
proof (intro conjI ballI)
  show k: "set (dict_keys (fst (read_slots env w addr b slots net))) = fst ` set slots"
    by (rule read_slots_keys)
  show "set (dict_keys (fst (read_slots env w addr b slots net)))
       = set (dict_keys (fst (read_slots env' w' addr' b' slots net')))"
    by (simp add: read_slots_keys)
  fix x assume x: "x \<in> set slots"
  obtain lbl idx where xe: "x = (lbl, idx)"
    by (cases x)
  with x have m: "lbl \<in> set (dict_keys (fst (read_slots env w addr b slots net)))"
    unfolding k by force
  then obtain v where "map_of (fst (read_slots env w addr b slots net)) lbl = Some v"
    unfolding dict_keys_def by (metis list.set_map map_of_eq_None_iff not_Some_eq)
  with m xe show "case x of (lbl, idx) \<Rightarrow>
         lbl \<in> set (dict_keys (fst (read_slots env w addr b slots net)))
         \<and> dict_get (fst (read_slots env w addr b slots net)) lbl ''MISSING''
             = dict_get (fst (read_slots env w addr b slots net)) lbl dflt"
    by (simp add: dict_get_def)
qed

theorem read_slots_key_set_witness:
  "set (dict_keys (fst (read_slots example_env (''http://a.example'', 30) ''0xabc'' ''latest''
        [(''a'', 0), (''b'', 1), (''a'', 2)] 0))) = {''a'', ''b''}
   \<and> dict_get (fst (read_slots example_env (''http://a.example'', 30) ''0xabc'' ''latest''
        [(''a'', 0), (''b'', 1), (''a'', 2)] 0)) ''b'' ''MISSING''
      = dict_get (fst (read_slots example_env (''http://a.example'', 30) ''0xabc'' ''latest''
        [(''a'', 0), (''b'', 1), (''a'', 2)] 0)) ''b'' ''other''"
  using read_slots_key_set[of example_env "(''http://a.example'', 30)" "''0xabc''" "''latest''"
      "[(''a'', 0), (''b'', 1), (''a'', 2)]" 0 example_env "(''https://b.example'', 30)" "''0xabc''"
      "''latest''" 0 "''other''"]
  by auto

subsection \<open>The per-slot loop of main and compare\<close>

lemma count_mismatches_eq:
  "count_mismatches a b m slots =
     m + length (filter (\<lambda>k. dict_get a k ''MISSING'' \<noteq> dict_get b k ''MISSING'') (map fst slots))"
  by (induction slots arbitrary: m) (auto simp: Let_def)

lemma compare_eq:
  "compare a b =
     (map (\<lambda>k. (k, dict_get a k ''MISSING'', dict_get b k ''MISSING''))
        (filter (\<lambda>k. dict_get a k ''MISSING'' \<noteq> dict_get b k ''MISSING'')
           (sorted_list_of_set (set (dict_keys a) \<union> set (dict_keys b)))),
      filter (\<lambda>k. dict_get a k ''MISSING'' \<noteq> dict_get b k ''MISSING'')
        (sorted_list_of_set (set (dict_keys a) \<union> set (dict_keys b))) = [])"
  by (simp add: compare_def compare_loop_eq)

lemma length_filter_distinct:
  "distinct xs \<Longrightarrow> length (filter P xs) = card {x \<in> set xs. P x}"
proof -
  assume "distinct xs"
  then have "distinct (filter P xs)"
    by simp
  from distinct_card[OF this] show ?thesis
    by simp
qed

text \<open>
  C10. Let \<open>a_vals\<close> and \<open>b_vals\<close> be what \<open>read_slots\<close> returns for one slot list at
  any two endpoints. If the labels of the list are pairwise distinct, the number of
  mismatches the per-slot loop of \<open>main\<close> counts is the length of the mismatch list of
  \<open>compare a_vals b_vals\<close>. With or without distinct labels, the count is zero exactly
  when \<open>compare\<close> returns \<open>ok = True\<close>. (\<open>main\<close> does not call \<open>compare\<close>: its count is
  \<open>count_mismatches\<close>.)
\<close>

theorem main_count_matches_compare:
  assumes "a_vals = fst (read_slots env w addr b slots net)"
    and "b_vals = fst (read_slots env' w' addr' b' slots net')"
  shows "(distinct (map fst slots) \<longrightarrow>
            count_mismatches a_vals b_vals 0 slots = length (fst (compare a_vals b_vals)))
       \<and> (count_mismatches a_vals b_vals 0 slots = 0) = snd (compare a_vals b_vals)"
proof -
  let ?P = "\<lambda>k. dict_get a_vals k ''MISSING'' \<noteq> dict_get b_vals k ''MISSING''"
  let ?ls = "map fst slots"
  have keys: "set (dict_keys a_vals) \<union> set (dict_keys b_vals) = set ?ls"
    by (simp add: assms read_slots_keys)
  have c: "count_mismatches a_vals b_vals 0 slots = length (filter ?P ?ls)"
    by (simp add: count_mismatches_eq)
  have d: "fst (compare a_vals b_vals) =
      map (\<lambda>k. (k, dict_get a_vals k ''MISSING'', dict_get b_vals k ''MISSING''))
        (filter ?P (sorted_list_of_set (set ?ls)))"
    and ok: "snd (compare a_vals b_vals) = (filter ?P (sorted_list_of_set (set ?ls)) = [])"
    unfolding compare_eq keys by simp_all
  have len: "length (filter ?P ?ls) = length (filter ?P (sorted_list_of_set (set ?ls)))"
    if "distinct ?ls"
    using length_filter_distinct[OF that, of ?P]
      length_filter_distinct[of "sorted_list_of_set (set ?ls)" ?P]
    by simp
  have zero: "(filter ?P ?ls = []) = (filter ?P (sorted_list_of_set (set ?ls)) = [])"
    by (simp add: filter_empty_conv)
  show ?thesis
    unfolding c d ok length_map length_0_conv using len zero by blast
qed

theorem main_count_matches_compare_witness:
  "distinct (map fst [(''a'', 0 :: int), (''b'', 1), (''c'', 2)])
   \<and> count_mismatches
        (fst (read_slots example_env (''http://a.example'', 30) ''0xabc'' ''latest''
           [(''a'', 0), (''b'', 1), (''c'', 2)] 0))
        (fst (read_slots example_env (''https://b.example'', 30) ''0xabc'' ''latest''
           [(''a'', 0), (''b'', 1), (''c'', 2)] 3))
        0 [(''a'', 0), (''b'', 1), (''c'', 2)] = 1
   \<and> compare
        (fst (read_slots example_env (''http://a.example'', 30) ''0xabc'' ''latest''
           [(''a'', 0), (''b'', 1), (''c'', 2)] 0))
        (fst (read_slots example_env (''https://b.example'', 30) ''0xabc'' ''latest''
           [(''a'', 0), (''b'', 1), (''c'', 2)] 3))
       = ([(''c'', ''0x0a'', ''0x0b'')], False)"
proof -
  let ?slots = "[(''a'', 0 :: int), (''b'', 1), (''c'', 2)]"
  let ?a = "fst (read_slots example_env (''http://a.example'', 30) ''0xabc'' ''latest'' ?slots 0)"
  let ?b = "fst (read_slots example_env (''https://b.example'', 30) ''0xabc'' ''latest'' ?slots 3)"
  have a: "?a = [(''a'', ''0x00''), (''b'', ''ERROR:timeout''), (''c'', ''0x0a'')]"
    by (simp add: get_storage_at_def read_slots_def example_env_def)
  have b: "?b = [(''a'', ''0x00''), (''b'', ''ERROR:timeout''), (''c'', ''0x0b'')]"
    by (simp add: get_storage_at_def read_slots_def example_env_def)
  have cmp: "compare [(''a'', ''0x00''), (''b'', ''ERROR:timeout''), (''c'', ''0x0a'')]
      [(''a'', ''0x00''), (''b'', ''ERROR:timeout''), (''c'', ''0x0b'')]
      = ([(''c'', ''0x0a'', ''0x0b'')], False)"
    by code_simp
  have cnt: "count_mismatches [(''a'', ''0x00''), (''b'', ''ERROR:timeout''), (''c'', ''0x0a'')]
      [(''a'', ''0x00''), (''b'', ''ERROR:timeout''), (''c'', ''0x0b'')] 0 ?slots = 1"
    by (simp add: dict_get_def)
  from main_count_matches_compare[OF refl refl, where env = example_env
      and w = "(''http://a.example'', 30)" and addr = "''0xabc''" and b = "''latest''"
      and slots = ?slots and net = 0 and env' = example_env and w' = "(''https://b.example'', 30)"
      and addr' = "''0xabc''" and b' = "''latest''" and net' = 3]
  show ?thesis
    unfolding a b by (simp add: cmp cnt)
qed

subsection \<open>The exit code of main\<close>






end
